theory Spec2Isabelle
  imports Main "HOL-Library.Word" "HOL-Library.List_Lexorder" "HOL-Library.Multiset"
begin

unbundle bit_operations_syntax

section \<open>The offline dictionary file engine (sdict\_file.h)\<close>

text \<open>
  The class \<open>dictionary_file\<close> keeps an in-memory index (\<open>words\<close>, \<open>first_new_word\<close>,
  \<open>existing_defs\<close>) beside one file on disk. The embedding models the file as the list of
  its bytes and every member function as a function on the record of the object's state.
  An exception thrown by the source is a value \<open>Inl\<close> of the result type; a failed
  \<open>assert\<close> (the build keeps assertions) is the error \<open>Assertion_failure\<close>.

  A \<open>std::string\<close> is a sequence of bytes, compared lexicographically byte by byte as
  unsigned values (\<open>std::char_traits<char>\<close>); keys are therefore byte lists under the
  lexicographic order. Stream positions are written out: each read or write of the source
  happens at the position its preceding \<open>seekg\<close>/\<open>seekp\<close> and sequential reads give.
\<close>

subsection \<open>Data\<close>

type_synonym byte = "8 word"
type_synonym u32 = "32 word"
type_synonym u64 = "64 word"
type_synonym key = "byte list"

datatype error = Runtime_error string | Logic_error string | Assertion_failure

datatype open_type = ot_no_file | ot_none | ot_read | ot_write | ot_read_write

text \<open>\<open>struct word_info { std::string word; std::uint32_t def_ind; }\<close> is a pair.\<close>

type_synonym word_info = "key \<times> u32"

text \<open>
  The member stream \<open>file\<close> is the content \<open>file_data\<close> of the file called \<open>filename\<close>
  together with \<open>file_open_type\<close>.
\<close>

record dictionary_file =
  file_data :: "byte list"
  file_open_type :: open_type
  reserved_words :: u32
  words_sect_size :: u32
  words :: "word_info list"
  first_new_word :: "nat option"
  existing_defs :: "u32 \<rightharpoonup> (u64 \<rightharpoonup> u32 list)"
  do_dedup :: bool
  created_file :: bool

text \<open>Sequencing of fallible steps: the first exception ends the operation.\<close>

definition ebind :: "error + 'a \<Rightarrow> ('a \<Rightarrow> error + 'b) \<Rightarrow> error + 'b" where
  "ebind m f = (case m of Inl e \<Rightarrow> Inl e | Inr x \<Rightarrow> f x)"

subsection \<open>Little-endian integers and stream reads\<close>

definition init_reserved_words :: u32 where "init_reserved_words = 32"
definition init_words_sect_size :: u32 where "init_words_sect_size = 256"
definition batch_size :: nat where "batch_size = 4096"

definition magic_bytes :: "byte list" where
  "magic_bytes = [0x53, 0x44, 0x49, 0x43, 0x54, 0x01, 0x00]"

text \<open>
  \<open>read_bytes f pos n\<close>: \<open>seekg(pos)\<close>, \<open>read(n)\<close>, \<open>check_file()\<close>. A read that reaches
  past the end of the file sets \<open>eofbit\<close>, which \<open>check_file\<close> reports.
\<close>

definition read_bytes :: "byte list \<Rightarrow> nat \<Rightarrow> nat \<Rightarrow> error + byte list" where
  "read_bytes f pos n =
     (if pos + n \<le> length f then Inr (take n (drop pos f))
      else Inl (Runtime_error ''Unexpected EOF''))"

definition uint32_of_bytes :: "byte list \<Rightarrow> u32" where
  "uint32_of_bytes cs =
     ucast (cs ! 0) + push_bit 8 (ucast (cs ! 1)) + push_bit 16 (ucast (cs ! 2))
       + push_bit 24 (ucast (cs ! 3))"

definition uint64_of_bytes :: "byte list \<Rightarrow> u64" where
  "uint64_of_bytes cs =
     ucast (cs ! 0) + push_bit 8 (ucast (cs ! 1)) + push_bit 16 (ucast (cs ! 2))
       + push_bit 24 (ucast (cs ! 3)) + push_bit 32 (ucast (cs ! 4))
       + push_bit 40 (ucast (cs ! 5)) + push_bit 48 (ucast (cs ! 6))
       + push_bit 56 (ucast (cs ! 7))"

definition read_uint32_LE :: "byte list \<Rightarrow> nat \<Rightarrow> error + u32" where
  "read_uint32_LE f pos = ebind (read_bytes f pos 4) (\<lambda>cs. Inr (uint32_of_bytes cs))"

definition read_uint64_LE :: "byte list \<Rightarrow> nat \<Rightarrow> error + u64" where
  "read_uint64_LE f pos = ebind (read_bytes f pos 8) (\<lambda>cs. Inr (uint64_of_bytes cs))"

text \<open>The bytes \<open>write_uint32_LE\<close> and \<open>write_uint64_LE\<close> put on the stream.\<close>

definition uint32_LE :: "u32 \<Rightarrow> byte list" where
  "uint32_LE num =
     [ucast (num AND 0xFF), ucast (drop_bit 8 num AND 0xFF),
      ucast (drop_bit 16 num AND 0xFF), ucast (drop_bit 24 num AND 0xFF)]"

definition uint64_LE :: "u64 \<Rightarrow> byte list" where
  "uint64_LE num =
     [ucast (num AND 0xFF), ucast (drop_bit 8 num AND 0xFF),
      ucast (drop_bit 16 num AND 0xFF), ucast (drop_bit 24 num AND 0xFF),
      ucast (drop_bit 32 num AND 0xFF), ucast (drop_bit 40 num AND 0xFF),
      ucast (drop_bit 48 num AND 0xFF), ucast (drop_bit 56 num AND 0xFF)]"

definition write_nulls :: "nat \<Rightarrow> byte list" where
  "write_nulls cnt = replicate cnt 0"

text \<open>
  Writing \<open>bs\<close> at position \<open>pos\<close> of a file: bytes in place are overwritten, the file
  grows where the write passes its end.
\<close>

definition write_at :: "byte list \<Rightarrow> nat \<Rightarrow> byte list \<Rightarrow> byte list" where
  "write_at f pos bs =
     take pos f @ replicate (pos - length f) 0 @ bs @ drop (pos + length bs) f"

subsection \<open>Section offsets\<close>

text \<open>
  \<open>reserved_words_ * 4 * 2\<close> is a product of a \<open>std::uint32_t\<close> and \<open>int\<close>s, so it is
  computed in 32 bits before it is added to the 64-bit stream offset.
\<close>

definition inds_section_offset :: nat where
  "inds_section_offset = length magic_bytes + 4 + 4 + 4"

definition words_section_offset :: "u32 \<Rightarrow> nat" where
  "words_section_offset rw = inds_section_offset + unat (rw * 4 * 2)"

definition defs_section_offset :: "u32 \<Rightarrow> u32 \<Rightarrow> nat" where
  "defs_section_offset rw wss =
     words_section_offset rw + unat wss"

subsection \<open>FNV-1a\<close>

definition fnv_init :: u64 where "fnv_init = 0xcbf29ce484222325"

fun fnv1a :: "byte list \<Rightarrow> u64 \<Rightarrow> u64" where
  "fnv1a [] hash = hash"
| "fnv1a (b # data) hash = fnv1a data ((hash XOR ucast b) * 0x100000001b3)"

subsection \<open>Lookup in the in-memory index\<close>

text \<open>
  \<open>std::lower_bound\<close> over \<open>words[first, first + len)\<close>, comparing the key of an entry
  with the searched word: the usual halving loop.
\<close>

function lower_bound :: "word_info list \<Rightarrow> key \<Rightarrow> nat \<Rightarrow> nat \<Rightarrow> nat" where
  "lower_bound ws word first len =
     (if len = 0 then first
      else let half = len div 2; middle = first + half
           in if fst (ws ! middle) < word
              then lower_bound ws word (middle + 1) (len - half - 1)
              else lower_bound ws word first half)"
  by pat_completeness auto
termination
  by (relation "measure (\<lambda>(ws, word, first, len). len)") auto

declare lower_bound.simps [simp del]

text \<open>\<open>(std::uint32_t) -1\<close> is what \<open>find_def_ind\<close> returns for a word it did not find.\<close>

definition find_def_ind :: "dictionary_file \<Rightarrow> key \<Rightarrow> u32" where
  "find_def_ind s word =
     (let ws = words s;
          end_it = (case first_new_word s of None \<Rightarrow> length ws | Some n \<Rightarrow> n);
          it = lower_bound ws word 0 end_it
      in if it = end_it \<or> fst (ws ! it) \<noteq> word
         then (if end_it = length ws then - 1
               else (case List.find (\<lambda>e. fst e = word) (drop end_it ws) of
                       None \<Rightarrow> - 1
                     | Some e \<Rightarrow> snd e))
         else snd (ws ! it))"

definition contains :: "dictionary_file \<Rightarrow> key \<Rightarrow> bool" where
  "contains s word = (find_def_ind s word \<noteq> - 1)"

definition num_words :: "dictionary_file \<Rightarrow> nat" where
  "num_words s = length (words s)"

text \<open>
  Reads through the member stream \<open>file\<close> fail (\<open>failbit\<close>, reported by \<open>check_file\<close>)
  when the stream is not open for reading.
\<close>

definition file_read :: "dictionary_file \<Rightarrow> nat \<Rightarrow> nat \<Rightarrow> error + byte list" where
  "file_read s pos n =
     (if file_open_type s = ot_read \<or> file_open_type s = ot_read_write
      then read_bytes (file_data s) pos n
      else Inl (Runtime_error ''File I/O error''))"

definition read_def_whole :: "dictionary_file \<Rightarrow> u32 \<Rightarrow> bool \<Rightarrow> error + byte list" where
  "read_def_whole s def_ind check_def =
     (let pos = defs_section_offset (reserved_words s) (words_sect_size s) + unat def_ind
      in ebind (file_read s pos 4) (\<lambda>cs.
         let sz = uint32_of_bytes cs
         in ebind (file_read s (pos + 4) 8) (\<lambda>hs.
            let hash = uint64_of_bytes hs
            in ebind (file_read s (pos + 12) (unat sz)) (\<lambda>v.
               if check_def \<and> hash \<noteq> fnv1a v fnv_init
               then Inl (Runtime_error ''Definition hash does not match. File may be corrupted'')
               else Inr v))))"

text \<open>\<open>find\<close>: the absent optional is \<open>Inr None\<close>.\<close>

definition find :: "dictionary_file \<Rightarrow> key \<Rightarrow> bool \<Rightarrow> error + byte list option" where
  "find s word check_def =
     (let ind = find_def_ind s word
      in if ind = - 1 then Inr None
         else ebind (read_def_whole s ind check_def) (\<lambda>v. Inr (Some v)))"

subsection \<open>The invariant of the in-memory index\<close>

text \<open>
  The class keeps \<open>words\<close> sorted by key up to \<open>first_new_word\<close> (all of it when
  \<open>first_new_word\<close> is \<open>-1\<close>), and no key twice.
\<close>

definition index_wf :: "dictionary_file \<Rightarrow> bool" where
  "index_wf s =
     (let n = (case first_new_word s of None \<Rightarrow> length (words s) | Some n \<Rightarrow> n)
      in n \<le> length (words s) \<and> sorted (map fst (take n (words s)))
         \<and> distinct (map fst (words s)))"

subsection \<open>Concrete states and files\<close>

definition sentinel_state :: dictionary_file where
  "sentinel_state =
     \<lparr>file_data = [], file_open_type = ot_read, reserved_words = 32, words_sect_size = 256,
      words = [([97], 5), ([99], 7), ([98], - 1)], first_new_word = Some 2,
      existing_defs = Map.empty, do_dedup = False, created_file = False\<rparr>"

definition plain_state :: dictionary_file where
  "plain_state = sentinel_state\<lparr>words := [([97], 5), ([99], 7), ([98], 0)]\<rparr>"

subsection \<open>Definition records: header and batched payload reads\<close>

text \<open>
  \<open>get_def_size_and_hash(def_ind, expected_size, defs_section_offset_)\<close>; the pair
  \<open>(0, 0)\<close> reports a size other than the expected one.
\<close>

definition get_def_size_and_hash ::
    "dictionary_file \<Rightarrow> u32 \<Rightarrow> u32 \<Rightarrow> nat \<Rightarrow> error + (u32 \<times> u64)" where
  "get_def_size_and_hash s def_ind expected_size defs_off =
     (let def_off = defs_off + unat def_ind
      in ebind (file_read s def_off 4) (\<lambda>cs.
         let sz = uint32_of_bytes cs
         in if sz = 0
            then Inl (Runtime_error ''Read 0 definition size. File may be corrupted'')
            else if expected_size \<noteq> 0 \<and> sz \<noteq> expected_size then Inr (0, 0)
            else ebind (file_read s (def_off + 4) 8) (\<lambda>hs. Inr (sz, uint64_of_bytes hs))))"

definition get_def_hash :: "dictionary_file \<Rightarrow> u32 \<Rightarrow> u32 \<Rightarrow> nat \<Rightarrow> error + u64 option" where
  "get_def_hash s def_ind expected_size defs_off =
     ebind (get_def_size_and_hash s def_ind expected_size defs_off) (\<lambda>(sz, hash).
       Inr (if sz = 0 then None else Some hash))"

text \<open>
  \<open>read_def_batched(batch_ind, size, data_start_pos, fin)\<close> returns a \<open>batch_size\<close> array
  and the number of bytes read into it. The array \<open>arr\<close> is a local variable that is not
  initialised: the read overwrites its first \<open>read_amt\<close> bytes and the rest stays what it
  was. What it was is not determined by the program, so it is the last argument here.
\<close>

definition read_def_batched ::
    "byte list \<Rightarrow> nat \<Rightarrow> u32 \<Rightarrow> nat \<Rightarrow> byte list \<Rightarrow> error + (byte list \<times> nat)" where
  "read_def_batched f batch_ind sz data_start_pos arr =
     (let read_amt = min (unat sz - batch_ind * batch_size) batch_size
      in ebind (read_bytes f (data_start_pos + batch_ind * batch_size) read_amt) (\<lambda>bs.
           Inr (bs @ drop read_amt arr, read_amt)))"

text \<open>
  The loops that hash or copy a payload use the first \<open>read_amt\<close> bytes of the array only
  (\<open>subspan(0, read_amt)\<close>, \<open>write(data.data(), read_amt)\<close>), so what the array held before
  makes no difference to them; there it is taken to be zeros.
\<close>

definition no_arr :: "byte list" where
  "no_arr = replicate batch_size 0"

text \<open>The bound \<open>(size - 1) / batch_size + 1\<close> of the batch loops.\<close>

definition num_batches :: "u32 \<Rightarrow> nat" where
  "num_batches sz = unat (sz - 1) div batch_size + 1"

fun hash_batches :: "byte list \<Rightarrow> u32 \<Rightarrow> nat \<Rightarrow> nat list \<Rightarrow> u64 \<Rightarrow> error + u64" where
  "hash_batches f sz pos [] hash = Inr hash"
| "hash_batches f sz pos (i # is) hash =
     ebind (read_def_batched f i sz pos no_arr) (\<lambda>(data, read_amt).
       hash_batches f sz pos is (fnv1a (take read_amt data) hash))"

definition hash_existing_def :: "dictionary_file \<Rightarrow> u32 \<Rightarrow> u32 \<Rightarrow> error + u64 option" where
  "hash_existing_def s def_ind expected_size =
     (let def_off = defs_section_offset (reserved_words s) (words_sect_size s) + unat def_ind
      in ebind (file_read s def_off 4) (\<lambda>cs.
         let sz = uint32_of_bytes cs
         in if sz = 0
            then Inl (Runtime_error ''Read 0 definition size. File may be corrupted'')
            else if expected_size \<noteq> 0 \<and> sz \<noteq> expected_size then Inr None
            else if file_open_type s = ot_read \<or> file_open_type s = ot_read_write
            then ebind (hash_batches (file_data s) sz (def_off + 12) [0..<num_batches sz] fnv_init)
                   (\<lambda>hash. Inr (Some hash))
            else Inl (Runtime_error ''File I/O error'')))"

subsection \<open>The dedup index\<close>

text \<open>\<open>existing_defs[size][hash].push_back(def_ind)\<close>.\<close>

definition push_existing ::
    "(u32 \<rightharpoonup> (u64 \<rightharpoonup> u32 list)) \<Rightarrow> u32 \<Rightarrow> u64 \<Rightarrow> u32 \<Rightarrow> (u32 \<rightharpoonup> (u64 \<rightharpoonup> u32 list))" where
  "push_existing m sz hash def_ind =
     (let inner = (case m sz of None \<Rightarrow> Map.empty | Some i \<Rightarrow> i);
          l = (case inner hash of None \<Rightarrow> [] | Some l \<Rightarrow> l)
      in m(sz \<mapsto> inner(hash \<mapsto> l @ [def_ind])))"

fun find_candidate :: "dictionary_file \<Rightarrow> u32 \<Rightarrow> u64 \<Rightarrow> u32 list \<Rightarrow> error + u32 option" where
  "find_candidate s sz hash [] = Inr None"
| "find_candidate s sz hash (def_ind # rest) =
     ebind (get_def_hash s def_ind sz
              (defs_section_offset (reserved_words s) (words_sect_size s))) (\<lambda>h.
       if h = Some hash then Inr (Some def_ind) else find_candidate s sz hash rest)"

definition get_existing_def_ind :: "dictionary_file \<Rightarrow> byte list \<Rightarrow> error + u32 option" where
  "get_existing_def_ind s defn =
     (if defn = [] \<or> unat (of_nat (length defn) :: u32) \<noteq> length defn then Inl Assertion_failure
      else let sz = of_nat (length defn) :: u32
           in case existing_defs s sz of
                None \<Rightarrow> Inr None
              | Some inner \<Rightarrow>
                  (let hash = fnv1a defn fnv_init
                   in case inner hash of
                        None \<Rightarrow> Inr None
                      | Some cands \<Rightarrow> find_candidate s sz hash cands))"

subsection \<open>Opening the stream\<close>

definition open_in :: "dictionary_file \<Rightarrow> dictionary_file" where
  "open_in s = s\<lparr>file_open_type := ot_read\<rparr>"

definition open_in_out :: "dictionary_file \<Rightarrow> dictionary_file" where
  "open_in_out s = s\<lparr>file_open_type := ot_read_write\<rparr>"

text \<open>\<open>open_out\<close> truncates the file.\<close>

definition open_out :: "dictionary_file \<Rightarrow> dictionary_file" where
  "open_out s = s\<lparr>file_data := [], file_open_type := ot_write\<rparr>"

definition close :: "dictionary_file \<Rightarrow> error + dictionary_file" where
  "close s =
     (if file_open_type s = ot_no_file
      then Inl (Logic_error ''No associated file. Call open(string_view) first'')
      else Inr (s\<lparr>file_open_type := ot_none\<rparr>))"

subsection \<open>Creating and reading a file\<close>

definition create_file :: "dictionary_file \<Rightarrow> error + dictionary_file" where
  "create_file s =
     (if words s \<noteq> [] then Inl Assertion_failure
      else let s1 = open_out (s\<lparr>reserved_words := init_reserved_words,
                                 words_sect_size := init_words_sect_size\<rparr>);
               bytes = magic_bytes @ uint32_LE (reserved_words s1)
                 @ uint32_LE (words_sect_size s1) @ uint32_LE 0
                 @ write_nulls (unat (reserved_words s1 * 4 * 2))
                 @ write_nulls (unat (words_sect_size s1))
           in Inr (open_in (s1\<lparr>file_data := bytes\<rparr>)))"

text \<open>\<open>std::ranges::adjacent_find(v) != end\<close>.\<close>

fun adjacent_dup :: "'a list \<Rightarrow> bool" where
  "adjacent_dup (x # y # zs) = (x = y \<or> adjacent_dup (y # zs))"
| "adjacent_dup _ = False"

text \<open>
  \<open>sort_and_find_dup_zipped(word_inds, def_inds)\<close> sorts the zipped pairs in place by the
  word offset and looks for two neighbours with the same word offset. The order
  \<open>std::ranges::sort\<close> gives to pairs with equal word offsets is not specified; it is only
  used when there are none.
\<close>

definition sort_zipped :: "u32 list \<Rightarrow> u32 list \<Rightarrow> (u32 \<times> u32) list" where
  "sort_zipped word_inds def_inds = sort_key fst (zip word_inds def_inds)"

definition sort_and_find_dup_zipped :: "u32 list \<Rightarrow> u32 list \<Rightarrow> bool" where
  "sort_and_find_dup_zipped word_inds def_inds =
     adjacent_dup (map fst (sort_zipped word_inds def_inds))"

text \<open>One index table: \<open>cnt\<close> entries from \<open>pos\<close>, the non-zero ones decremented.\<close>

fun read_inds :: "byte list \<Rightarrow> nat \<Rightarrow> nat \<Rightarrow> error + u32 list" where
  "read_inds f pos 0 = Inr []"
| "read_inds f pos (Suc cnt) =
     ebind (read_uint32_LE f pos) (\<lambda>ind.
       ebind (read_inds f (pos + 4) cnt) (\<lambda>rest.
         Inr (if ind \<noteq> 0 then (ind - 1) # rest else rest)))"

text \<open>
  A word: the bytes from \<open>pos\<close> up to a null, at most \<open>limit\<close> of them; the null stays
  unread when the limit is reached first.
\<close>

fun read_word :: "byte list \<Rightarrow> nat \<Rightarrow> nat \<Rightarrow> error + key" where
  "read_word f pos 0 = Inr []"
| "read_word f pos (Suc limit) =
     (if pos < length f
      then (if f ! pos = 0 then Inr []
            else ebind (read_word f (Suc pos) limit) (\<lambda>w. Inr (f ! pos # w)))
      else Inl (Runtime_error ''Unexpected EOF''))"

fun read_words :: "byte list \<Rightarrow> nat \<Rightarrow> u32 \<Rightarrow> (u32 \<times> u32) list \<Rightarrow> error + word_info list" where
  "read_words f section_off wss [] = Inr []"
| "read_words f section_off wss ((word_off, def_off) # rest) =
     ebind (read_word f (section_off + unat word_off) (unat (wss - word_off))) (\<lambda>word.
       ebind (read_words f section_off wss rest) (\<lambda>ws. Inr ((word, def_off) # ws)))"

definition read_file :: "dictionary_file \<Rightarrow> error + dictionary_file" where
  "read_file s =
     (let f = file_data s; file_size = length f
      in ebind (read_bytes f 0 (length magic_bytes)) (\<lambda>arr.
         if arr \<noteq> magic_bytes
         then Inl (Runtime_error ''Incorrect magic bytes. File may be corrupted'')
         else ebind (read_uint32_LE f 7) (\<lambda>rw.
         if rw = 0 then Inl (Runtime_error ''Read 0 reserved words. File may be corrupted'')
         else ebind (read_uint32_LE f 11) (\<lambda>wss.
         if wss = 0 then Inl (Runtime_error ''Read 0 word section size. File may be corrupted'')
         else ebind (read_uint32_LE f 15) (\<lambda>nw.
         let num_words = unat nw
         in if num_words > unat rw
            then Inl (Runtime_error
              ''Number of words is greater than total reserved words. File may be corrupted'')
            else if unat rw * 8 + num_words > file_size
            then Inl (Runtime_error
              ''Reported indices + words section sizes is greater than file size. File may be corrupted'')
            else ebind (read_inds f 19 (unat rw)) (\<lambda>word_inds.
                 ebind (read_inds f (19 + 4 * unat rw) (unat rw)) (\<lambda>def_inds.
                 if length word_inds \<noteq> num_words \<or> length def_inds \<noteq> num_words
                 then Inl (Runtime_error
                   ''Incorrect number of valid indices. File may be corrupted'')
                 else if sort_and_find_dup_zipped word_inds def_inds
                 then Inl (Runtime_error ''Found repeated indices. File may be corrupted'')
                 else ebind (read_words f (words_section_offset rw) wss
                               (sort_zipped word_inds def_inds)) (\<lambda>ws.
                      let sorted_ws = sort_key fst ws
                      in if adjacent_dup (map fst sorted_ws)
                         then Inl (Runtime_error ''Found repeated words. File may be corrupted'')
                         else Inr (s\<lparr>reserved_words := rw, words_sect_size := wss,
                                     words := sorted_ws\<rparr>)))))))))"

subsection \<open>Sorting the index\<close>

text \<open>\<open>std::inplace_merge\<close>: an entry of the second range goes first only when smaller.\<close>

fun merge_words :: "word_info list \<Rightarrow> word_info list \<Rightarrow> word_info list" where
  "merge_words [] ys = ys"
| "merge_words xs [] = xs"
| "merge_words (x # xs) (y # ys) =
     (if fst y < fst x then y # merge_words (x # xs) ys else x # merge_words xs (y # ys))"

definition sort_words :: "dictionary_file \<Rightarrow> error + dictionary_file" where
  "sort_words s =
     (case first_new_word s of
        None \<Rightarrow> Inl Assertion_failure
      | Some fnw \<Rightarrow>
          if \<not> fnw \<le> length (words s) then Inl Assertion_failure
          else let tail = sort_key fst (drop fnw (words s))
               in if adjacent_dup (map fst tail)
                  then Inl (Logic_error ''Repeated words were inserted'')
                  else let merged = merge_words (take fnw (words s)) tail
                       in if \<not> sorted (map fst merged) then Inl Assertion_failure
                          else Inr (s\<lparr>words := merged, first_new_word := None\<rparr>))"

subsection \<open>Rewriting the file\<close>

text \<open>The total of \<open>word.size() + 1\<close> over a range of entries (\<open>reduce_fn\<close>).\<close>

definition words_len :: "word_info list \<Rightarrow> nat" where
  "words_len ws = sum_list (map (\<lambda>e. length (fst e) + 1) ws)"

text \<open>The packed keys, each with its null.\<close>

definition packed_words :: "word_info list \<Rightarrow> byte list" where
  "packed_words ws = concat (map (\<lambda>e. fst e @ [0]) ws)"

text \<open>
  The word-index entries of \<open>rewrite_file\<close>: \<open>bytes_written + 1\<close> for each word, where
  \<open>bytes_written\<close> is a \<open>std::uint32_t\<close>.
\<close>

fun word_inds_from :: "u32 \<Rightarrow> word_info list \<Rightarrow> u32 list" where
  "word_inds_from bytes_written [] = []"
| "word_inds_from bytes_written (e # ws) =
     (bytes_written + 1) # word_inds_from (bytes_written + of_nat (length (fst e) + 1)) ws"

text \<open>The payload of a record, copied batch by batch; the hash is folded along.\<close>

fun copy_batches ::
    "byte list \<Rightarrow> u32 \<Rightarrow> nat \<Rightarrow> nat list \<Rightarrow> u64 \<Rightarrow> error + (byte list \<times> u64)" where
  "copy_batches f sz pos [] hash = Inr ([], hash)"
| "copy_batches f sz pos (i # is) hash =
     ebind (read_def_batched f i sz pos no_arr) (\<lambda>(data, read_amt).
       ebind (copy_batches f sz pos is (fnv1a (take read_amt data) hash)) (\<lambda>(rest, h).
         Inr (take read_amt data @ rest, h)))"

text \<open>
  The payload compare of a dedup candidate: \<open>True\<close> when some batch differs
  (\<open>mismatch\<close>). It compares the whole arrays \<open>data\<close> and \<open>data2\<close>, also the bytes after
  \<open>read_amt\<close> that no read has set: \<open>arrs i\<close> is what the two arrays of batch \<open>i\<close> held
  before the reads.
\<close>

fun batches_mismatch ::
    "(nat \<Rightarrow> byte list \<times> byte list) \<Rightarrow> byte list \<Rightarrow> nat \<Rightarrow> byte list \<Rightarrow> nat \<Rightarrow> u32 \<Rightarrow> nat list
       \<Rightarrow> error + bool" where
  "batches_mismatch arrs f pos f2 pos2 sz [] = Inr False"
| "batches_mismatch arrs f pos f2 pos2 sz (i # is) =
     ebind (read_def_batched f i sz pos (fst (arrs i))) (\<lambda>(data, read_amt).
       ebind (read_def_batched f2 i sz pos2 (snd (arrs i))) (\<lambda>(data2, read_amt2).
         if read_amt \<noteq> read_amt2 \<or> data \<noteq> data2 then Inr True
         else batches_mismatch arrs f pos f2 pos2 sz is))"

text \<open>
  The loop over the candidates \<open>it2->second\<close> of one old record at \<open>cur_def_off\<close>: the
  offset of the first record of the new file with the same size, hash and arrays. (The
  source reads \<open>hash2\<close> without \<open>check_file\<close>; a failed read there leaves the stream
  failed and the operation ends in an error all the same.) \<open>arrs c i\<close> is what the two
  arrays held before the reads of batch \<open>i\<close> in the compare with the candidate \<open>c\<close>.
\<close>

fun match_candidate ::
    "(u32 \<Rightarrow> nat \<Rightarrow> byte list \<times> byte list) \<Rightarrow> byte list \<Rightarrow> nat \<Rightarrow> byte list \<Rightarrow> nat \<Rightarrow> u32 \<Rightarrow> u64
       \<Rightarrow> u32 list \<Rightarrow> error + u32 option" where
  "match_candidate arrs f cur_def_off f2 defs_sect_start sz old_hash [] = Inr None"
| "match_candidate arrs f cur_def_off f2 defs_sect_start sz old_hash (found_def_ind # rest) =
     ebind (read_uint32_LE f cur_def_off) (\<lambda>read_size.
       if read_size \<noteq> sz
       then match_candidate arrs f cur_def_off f2 defs_sect_start sz old_hash rest
       else ebind (read_uint32_LE f2 (defs_sect_start + unat found_def_ind)) (\<lambda>read_size2.
         if read_size2 \<noteq> sz
         then match_candidate arrs f cur_def_off f2 defs_sect_start sz old_hash rest
         else ebind (read_uint64_LE f2 (defs_sect_start + unat found_def_ind + 4)) (\<lambda>hash2.
           if hash2 \<noteq> old_hash
           then match_candidate arrs f cur_def_off f2 defs_sect_start sz old_hash rest
           else ebind (batches_mismatch (arrs found_def_ind) f (cur_def_off + 12) f2
                         (defs_sect_start + (unat found_def_ind + 12)) sz
                         [0..<num_batches sz]) (\<lambda>mismatch.
             if \<not> mismatch then Inr (Some found_def_ind)
             else match_candidate arrs f cur_def_off f2 defs_sect_start sz old_hash rest))))"

text \<open>
  One round of the loop over \<open>words\<close> in the defs part of \<open>rewrite_file\<close>: the state
  \<open>s\<close> holds the old file, \<open>f2\<close> is the new file so far and \<open>ed\<close> is \<open>existing_defs\<close>.
  The result is the new file, the dedup index and the entry with its new \<open>def_ind\<close>.
\<close>

definition rewrite_def ::
    "(u32 \<Rightarrow> nat \<Rightarrow> byte list \<times> byte list) \<Rightarrow> dictionary_file \<Rightarrow> nat \<Rightarrow> nat \<Rightarrow> byte list
       \<Rightarrow> (u32 \<rightharpoonup> (u64 \<rightharpoonup> u32 list)) \<Rightarrow> word_info
       \<Rightarrow> error + (byte list \<times> (u32 \<rightharpoonup> (u64 \<rightharpoonup> u32 list)) \<times> word_info)" where
  "rewrite_def arrs s old_defs_sect_off defs_sect_start f2 ed e =
     (let f = file_data s; word = fst e; def_ind = snd e;
          cur_def_off = old_defs_sect_off + unat def_ind
      in ebind (read_uint32_LE f cur_def_off) (\<lambda>sz.
         if sz = 0 then Inl (Runtime_error ''Read 0 definition size. File may be corrupted'')
         else
           ebind (if do_dedup s
                  then (case ed sz of
                          None \<Rightarrow> Inr (None, None)
                        | Some inner \<Rightarrow>
                            ebind (get_def_size_and_hash s def_ind sz old_defs_sect_off) (\<lambda>res.
                              if fst res = sz
                              then (case inner (snd res) of
                                      None \<Rightarrow> Inr (Some (snd res), None)
                                    | Some cands \<Rightarrow>
                                        ebind (match_candidate arrs f cur_def_off f2 defs_sect_start
                                                 sz (snd res) cands) (\<lambda>m.
                                          Inr (Some (snd res), m)))
                              else Inr (Some (snd res), None)))
                  else Inr (None, None)) (\<lambda>(old_hash, found).
           case found of
             Some found_def_ind \<Rightarrow> Inr (f2, ed, (word, found_def_ind))
           | None \<Rightarrow>
               ebind (if \<not> do_dedup s then Inr fnv_init
                      else case old_hash of
                             Some h \<Rightarrow> Inr h
                           | None \<Rightarrow> read_uint64_LE f (cur_def_off + 4)) (\<lambda>hash0.
               if length f2 < defs_sect_start then Inl Assertion_failure
               else
                 let new_ind = (of_nat (length f2 - defs_sect_start) :: u32)
                 in ebind (copy_batches f sz (cur_def_off + 12) [0..<num_batches sz] hash0)
                      (\<lambda>(payload, folded).
                    let f2' = f2 @ uint32_LE sz @ uint64_LE hash0 @ payload
                    in if \<not> do_dedup s
                       then Inr (write_at f2' (defs_sect_start + unat new_ind) (uint64_LE folded),
                                 ed, (word, new_ind))
                       else if (case ed sz of
                                  None \<Rightarrow> False
                                | Some inner \<Rightarrow>
                                    (case inner hash0 of
                                       None \<Rightarrow> False
                                     | Some l \<Rightarrow> new_ind \<in> set l))
                       then Inl Assertion_failure
                       else Inr (f2', push_existing ed sz hash0 new_ind, (word, new_ind)))))))"

text \<open>
  What the arrays of the compares hold before their reads, in one call of \<open>rewrite_file\<close>:
  for the word at a position of \<open>words\<close>, a candidate and a batch.
\<close>

type_synonym stale = "nat \<Rightarrow> u32 \<Rightarrow> nat \<Rightarrow> byte list \<times> byte list"

fun rewrite_defs ::
    "stale \<Rightarrow> dictionary_file \<Rightarrow> nat \<Rightarrow> nat \<Rightarrow> byte list \<Rightarrow> (u32 \<rightharpoonup> (u64 \<rightharpoonup> u32 list))
       \<Rightarrow> word_info list
       \<Rightarrow> error + (byte list \<times> (u32 \<rightharpoonup> (u64 \<rightharpoonup> u32 list)) \<times> word_info list)" where
  "rewrite_defs arrs s old_off start f2 ed [] = Inr (f2, ed, [])"
| "rewrite_defs arrs s old_off start f2 ed (e # ws) =
     ebind (rewrite_def (arrs 0) s old_off start f2 ed e) (\<lambda>(f2', ed', e').
       ebind (rewrite_defs (\<lambda>n. arrs (Suc n)) s old_off start f2' ed' ws) (\<lambda>(f2'', ed'', ws').
         Inr (f2'', ed'', e' # ws')))"

text \<open>
  \<open>rewrite_file(old_reserved_words, old_words_sect_size)\<close>: the new file is built beside
  the old one and renamed over it. In the fold of the hash the source continues from the
  placeholder \<open>fnv_init\<close> when dedup is off.
\<close>

definition rewrite_file ::
    "stale \<Rightarrow> dictionary_file \<Rightarrow> u32 \<Rightarrow> u32 \<Rightarrow> error + dictionary_file" where
  "rewrite_file arrs s old_reserved_words old_words_sect_size =
     (let rw = reserved_words s; wss = words_sect_size s; ws = words s
      in if \<not> length ws \<le> unat rw then Inl Assertion_failure
         else if \<not> words_len ws \<le> unat wss then Inl Assertion_failure
         else
           let bytes_written = (of_nat (words_len ws) :: u32);
               f2 = magic_bytes @ uint32_LE rw @ uint32_LE wss @ uint32_LE (of_nat (length ws))
                  @ concat (map uint32_LE (word_inds_from 0 ws))
                  @ write_nulls ((unat rw - length ws) * 4)
                  @ write_nulls (unat (rw * 4))
                  @ packed_words ws
                  @ write_nulls (unat (wss - bytes_written));
               defs_sect_start = length f2
           in if defs_sect_start \<noteq> defs_section_offset rw wss then Inl Assertion_failure
              else ebind (rewrite_defs arrs s
                            (defs_section_offset old_reserved_words old_words_sect_size)
                            defs_sect_start f2
                            (if do_dedup s then Map.empty else existing_defs s) ws)
                     (\<lambda>(f2', ed', ws').
                   let f2'' = write_at f2' (inds_section_offset + unat (rw * 4))
                                (concat (map (\<lambda>e. uint32_LE (snd e + 1)) ws')
                                   @ write_nulls ((unat rw - length ws') * 4))
                   in Inr (open_in (s\<lparr>file_data := f2'', existing_defs := ed',
                                       words := ws'\<rparr>))))"

subsection \<open>flush\<close>

text \<open>
  The growth loops \<open>while (words_sect_size < words_total_len) words_sect_size *= 2\<close> and
  \<open>while (reserved_words < words.size()) reserved_words *= 2\<close>: the section size is a
  \<open>std::uint32_t\<close>, the bound a \<open>std::size_t\<close>. A loop that does not end is the value
  \<open>None\<close>.
\<close>

partial_function (option) grow :: "u32 \<Rightarrow> nat \<Rightarrow> u32 option" where
  "grow sect_size needed = (if unat sect_size < needed then grow (sect_size * 2) needed
                            else Some sect_size)"

declare grow.simps [code]

text \<open>The offsets \<open>inds\<close> of the new words in the words section.\<close>

fun new_word_inds :: "nat \<Rightarrow> word_info list \<Rightarrow> nat list" where
  "new_word_inds off [] = []"
| "new_word_inds off (e # ws) = off # new_word_inds (off + length (fst e) + 1) ws"

definition flush_in_place :: "dictionary_file \<Rightarrow> nat \<Rightarrow> nat \<Rightarrow> error + (bool \<times> dictionary_file)" where
  "flush_in_place s fnw cur_words_total_len =
     (let ws = words s; new_ws = drop fnw ws;
          inds = new_word_inds cur_words_total_len new_ws;
          f1 = write_at (file_data s) (inds_section_offset - 4) (uint32_LE (of_nat (length ws)));
          f2 = write_at f1 (words_section_offset (reserved_words s) + cur_words_total_len)
                 (packed_words new_ws);
          f3 = write_at f2 (inds_section_offset + fnw * 4)
                 (concat (map (\<lambda>i. uint32_LE (of_nat (i + 1))) inds));
          f4 = write_at f3 (inds_section_offset + (unat (reserved_words s) + fnw) * 4)
                 (concat (map (\<lambda>e. uint32_LE (snd e + 1)) new_ws))
      in ebind (sort_words (s\<lparr>file_data := f4\<rparr>)) (\<lambda>s'. Inr (True, open_in s')))"

text \<open>\<open>flush()\<close>; \<open>arrs\<close> goes to \<open>rewrite_file\<close>.\<close>

definition flush :: "stale \<Rightarrow> dictionary_file \<Rightarrow> (error + (bool \<times> dictionary_file)) option" where
  "flush arrs s =
     (if file_open_type s = ot_no_file
      then Some (Inl (Logic_error ''No associated file. Call open(string_view) first''))
      else case first_new_word s of
             None \<Rightarrow> Some (Inr (False, open_in s))
           | Some fnw \<Rightarrow>
               (let s1 = open_in_out s;
                    cur_words_total_len = words_len (take fnw (words s1));
                    words_total_len = cur_words_total_len + words_len (drop fnw (words s1));
                    old_words_sect_size = words_sect_size s1
                in case grow (words_sect_size s1) words_total_len of
                     None \<Rightarrow> None
                   | Some wss \<Rightarrow>
                       (let s2 = s1\<lparr>words_sect_size := wss\<rparr>
                        in if wss \<noteq> old_words_sect_size
                                \<or> unat (reserved_words s2) < length (words s2)
                           then (case sort_words s2 of
                                   Inl e \<Rightarrow> Some (Inl e)
                                 | Inr s3 \<Rightarrow>
                                     (case grow (reserved_words s3) (length (words s3)) of
                                        None \<Rightarrow> None
                                      | Some rw \<Rightarrow>
                                          Some (ebind (rewrite_file arrs (s3\<lparr>reserved_words := rw\<rparr>)
                                                        (reserved_words s3) old_words_sect_size)
                                                  (\<lambda>s4. Inr (True, s4)))))
                           else Some (flush_in_place s2 fnw cur_words_total_len))))"

subsection \<open>add\_word\<close>

text \<open>
  The part of \<open>add_word\<close> between the duplicate check and the flush: the word gets the
  offset of an existing record with the same size and hash, or the record is written at
  the end of the file.
\<close>

definition store_def :: "key \<Rightarrow> byte list \<Rightarrow> dictionary_file \<Rightarrow> error + dictionary_file" where
  "store_def word defn s =
     (let s1 = (if first_new_word s = None then s\<lparr>first_new_word := Some (length (words s))\<rparr>
                else s)
      in ebind (if do_dedup s1 then get_existing_def_ind s1 defn else Inr None) (\<lambda>found.
           case found of
             Some def_ind \<Rightarrow> Inr (s1\<lparr>words := words s1 @ [(word, def_ind)]\<rparr>)
           | None \<Rightarrow>
               (let s2 = open_in_out s1;
                    defs_off = defs_section_offset (reserved_words s2) (words_sect_size s2)
                in if length (file_data s2) < defs_off then Inl Assertion_failure
                   else
                     let cur_def_offset = length (file_data s2) - defs_off;
                         hash = fnv1a defn fnv_init
                     in Inr (s2\<lparr>words := words s2 @ [(word, of_nat cur_def_offset)],
                               existing_defs :=
                                 (if do_dedup s2
                                  then push_existing (existing_defs s2)
                                         (of_nat (length defn)) hash (of_nat cur_def_offset)
                                  else existing_defs s2),
                               file_data := file_data s2
                                 @ uint32_LE (of_nat (length defn)) @ uint64_LE hash
                                 @ defn\<rparr>))))"

text \<open>
  \<open>add_word<flush_words, skip_dup_check>(word, def)\<close>; the template arguments are the
  two parameters after \<open>arrs\<close>, which goes to \<open>flush\<close>.
\<close>

definition add_word ::
    "stale \<Rightarrow> bool \<Rightarrow> bool \<Rightarrow> key \<Rightarrow> byte list \<Rightarrow> dictionary_file
       \<Rightarrow> (error + (bool \<times> dictionary_file)) option" where
  "add_word arrs flush_words skip_dup_check word defn s =
     (if file_open_type s = ot_no_file
      then Some (Inl (Logic_error ''No associated file. Call open(string_view) first''))
      else if \<not> skip_dup_check \<and> find_def_ind s word \<noteq> - 1 then Some (Inr (False, s))
      else case store_def word defn s of
             Inl e \<Rightarrow> Some (Inl e)
           | Inr s3 \<Rightarrow>
               if flush_words
               then (case flush arrs s3 of
                       None \<Rightarrow> None
                     | Some (Inl e) \<Rightarrow> Some (Inl e)
                     | Some (Inr (modified, s4)) \<Rightarrow> Some (Inr (True, s4)))
               else Some (Inr (True, s3)))"

subsection \<open>open\<close>

text \<open>What \<open>filename\<close> names when \<open>open\<close> is called.\<close>

datatype fs_entry = Missing | Not_regular | Regular "byte list"

text \<open>A default-constructed object; the two section sizes are not initialised.\<close>

definition new_dictionary_file :: dictionary_file where
  "new_dictionary_file =
     \<lparr>file_data = [], file_open_type = ot_no_file, reserved_words = 0, words_sect_size = 0,
      words = [], first_new_word = None, existing_defs = Map.empty, do_dedup = True,
      created_file = False\<rparr>"

text \<open>The loop of \<open>open\<close> over the words read, filling \<open>existing_defs\<close> and checking hashes.\<close>

fun load_defs :: "dictionary_file \<Rightarrow> bool \<Rightarrow> bool \<Rightarrow> word_info list \<Rightarrow> error + dictionary_file" where
  "load_defs s deduplicate check_defs [] = Inr s"
| "load_defs s deduplicate check_defs (e # ws) =
     ebind (get_def_size_and_hash s (snd e) 0
              (defs_section_offset (reserved_words s) (words_sect_size s))) (\<lambda>(sz, hash).
       if sz = 0 then Inl Assertion_failure
       else
         let s1 = (if deduplicate
                   then s\<lparr>existing_defs := push_existing (existing_defs s) sz hash (snd e)\<rparr>
                   else s)
         in if check_defs
            then ebind (hash_existing_def s1 (snd e) sz) (\<lambda>h.
                   if h \<noteq> Some hash
                   then Inl (Runtime_error ''Definition hash does not match. File may be corrupted'')
                   else load_defs s1 deduplicate check_defs ws)
            else load_defs s1 deduplicate check_defs ws)"

text \<open>
  \<open>open(filename_, create_if_not_exists, deduplicate, check_defs)\<close> on the object \<open>s\<close>,
  where \<open>entry\<close> is what the file system holds under the name. (The two messages of the
  source start with the file name.)
\<close>

definition open_file ::
    "dictionary_file \<Rightarrow> fs_entry \<Rightarrow> bool \<Rightarrow> bool \<Rightarrow> bool \<Rightarrow> error + dictionary_file" where
  "open_file s entry create_if_not_exists deduplicate check_defs =
     (let s1 = s\<lparr>file_open_type := ot_none, do_dedup := deduplicate\<rparr>
      in case entry of
           Not_regular \<Rightarrow> Inl (Runtime_error '' exists but is not a regular file'')
         | Missing \<Rightarrow>
             if \<not> create_if_not_exists
             then Inl (Runtime_error '' does not exist, not creating'')
             else ebind (create_file s1) (\<lambda>s2. Inr (s2\<lparr>created_file := True\<rparr>))
         | Regular bytes \<Rightarrow>
             ebind (read_file (open_in (s1\<lparr>file_data := bytes\<rparr>))) (\<lambda>s2.
               ebind (if deduplicate \<or> check_defs
                      then load_defs s2 deduplicate check_defs (words s2)
                      else Inr s2) (\<lambda>s3. Inr (s3\<lparr>created_file := False\<rparr>))))"

text \<open>Closing the object and opening its file again with a new object's defaults.\<close>

definition reopen :: "dictionary_file \<Rightarrow> bool \<Rightarrow> bool \<Rightarrow> error + dictionary_file" where
  "reopen s deduplicate check_defs =
     ebind (close s) (\<lambda>s'.
       open_file new_dictionary_file (Regular (file_data s')) True deduplicate check_defs)"

text \<open>The defs section of the file of an object.\<close>

definition defs_section :: "dictionary_file \<Rightarrow> byte list" where
  "defs_section s =
     drop (defs_section_offset (reserved_words s) (words_sect_size s)) (file_data s)"

text \<open>
  A new object opened on a name that does not exist yet (\<open>create_if_not_exists\<close> and
  \<open>check_defs\<close> as by default).
\<close>

definition fresh_file :: "bool \<Rightarrow> dictionary_file" where
  "fresh_file deduplicate =
     (case open_file new_dictionary_file Missing True deduplicate True of
        Inr s \<Rightarrow> s
      | Inl e \<Rightarrow> new_dictionary_file)"

text \<open>A key of 256 bytes: one more byte than the initial words section holds.\<close>

definition long_key :: key where
  "long_key = replicate 256 97"

text \<open>
  A file of 27 bytes: magic, \<open>reserved_words = 1\<close>, \<open>words_sect_size = 256\<close>,
  \<open>num_words = 0\<close>, the two index tables of one empty slot each, and no words section.
\<close>

definition short_file :: "byte list" where
  "short_file = magic_bytes @ uint32_LE 1 @ uint32_LE 256 @ uint32_LE 0 @ replicate 8 0"

subsection \<open>Powers of two\<close>











subsection \<open>The checks of read\_file before the index tables are compared\<close>

text \<open>
  The file \<open>f\<close> passes every check of \<open>read_file\<close> up to the count of the valid indices:
  the magic bytes, the three header fields \<open>rw\<close>, \<open>wss\<close> and \<open>num_words\<close>, the size check,
  and the two index tables, whose non-zero entries, decremented, are \<open>word_inds\<close> and
  \<open>def_inds\<close>.
\<close>

definition tables_read :: "byte list \<Rightarrow> u32 \<Rightarrow> u32 \<Rightarrow> u32 list \<Rightarrow> u32 list \<Rightarrow> bool" where
  "tables_read f rw wss word_inds def_inds =
     (read_bytes f 0 (length magic_bytes) = Inr magic_bytes
      \<and> read_uint32_LE f 7 = Inr rw \<and> rw \<noteq> 0
      \<and> read_uint32_LE f 11 = Inr wss \<and> wss \<noteq> 0
      \<and> (case read_uint32_LE f 15 of
            Inl e \<Rightarrow> False
          | Inr nw \<Rightarrow> unat nw \<le> unat rw \<and> unat rw * 8 + unat nw \<le> length f
              \<and> length word_inds = unat nw \<and> length def_inds = unat nw)
      \<and> read_inds f 19 (unat rw) = Inr word_inds
      \<and> read_inds f (19 + 4 * unat rw) (unat rw) = Inr def_inds)"

definition repeated_indices :: error where
  "repeated_indices = Runtime_error ''Found repeated indices. File may be corrupted''"

text \<open>
  Two files with two index slots and the keys \<open>a\<close> and \<open>b\<close>. In the first both words have
  the def offset 0 (one record, the definition \<open>x\<close>); in the second both word-index
  entries are 1.
\<close>

definition shared_def_file :: "byte list" where
  "shared_def_file =
     magic_bytes @ uint32_LE 2 @ uint32_LE 4 @ uint32_LE 2
       @ uint32_LE 1 @ uint32_LE 3 @ uint32_LE 1 @ uint32_LE 1
       @ [97, 0, 98, 0]
       @ uint32_LE 1 @ uint64_LE (fnv1a [120] fnv_init) @ [120]"

definition shared_word_file :: "byte list" where
  "shared_word_file =
     magic_bytes @ uint32_LE 2 @ uint32_LE 4 @ uint32_LE 2
       @ uint32_LE 1 @ uint32_LE 1 @ uint32_LE 1 @ uint32_LE 14
       @ [97, 0, 98, 0]
       @ uint32_LE 1 @ uint64_LE (fnv1a [120] fnv_init) @ [120]
       @ uint32_LE 1 @ uint64_LE (fnv1a [121] fnv_init) @ [121]"

text \<open>
  The def offset \<open>def_ind\<close> points at a record of the file: its size is not zero, its header
  and its payload lie within the file, and the hash of the header is the FNV-1a hash of the
  payload. These are the checks that \<open>open\<close> makes of a record when it loads it.
\<close>

definition record_ok :: "byte list \<Rightarrow> nat \<Rightarrow> u32 \<Rightarrow> bool" where
  "record_ok f defs_off def_ind =
     (case read_uint32_LE f (defs_off + unat def_ind) of
        Inl e \<Rightarrow> False
      | Inr sz \<Rightarrow>
          sz \<noteq> 0 \<and>
          (case read_uint64_LE f (defs_off + unat def_ind + 4) of
             Inl e \<Rightarrow> False
           | Inr hash \<Rightarrow>
               (case read_bytes f (defs_off + unat def_ind + 12) (unat sz) of
                  Inl e \<Rightarrow> False
                | Inr v \<Rightarrow> fnv1a v fnv_init = hash)))"

subsection \<open>Bytes at a position of a file\<close>

text \<open>The file \<open>f\<close> holds the bytes \<open>bs\<close> from position \<open>pos\<close> on.\<close>

definition bytes_at :: "byte list \<Rightarrow> nat \<Rightarrow> byte list \<Rightarrow> bool" where
  "bytes_at f pos bs = (pos + length bs \<le> length f \<and> take (length bs) (drop pos f) = bs)"

subsection \<open>The state of the engine against the pairs inserted\<close>

text \<open>The record of a definition \<open>v\<close>: size, hash and payload.\<close>

definition def_record :: "byte list \<Rightarrow> byte list" where
  "def_record v = uint32_LE (of_nat (length v)) @ uint64_LE (fnv1a v fnv_init) @ v"

text \<open>The defs section holds the record of \<open>v\<close> at the offset \<open>d\<close>.\<close>

definition record_at :: "dictionary_file \<Rightarrow> u32 \<Rightarrow> byte list \<Rightarrow> bool" where
  "record_at s d v =
     (v \<noteq> [] \<and> length v < 2 ^ 32
      \<and> bytes_at (file_data s)
            (defs_section_offset (reserved_words s) (words_sect_size s) + unat d) (def_record v))"

text \<open>
  The bytes that the pairs \<open>kvs\<close> need: each key with its null and its two index entries,
  each definition with its header.
\<close>

definition weight :: "(key \<times> byte list) list \<Rightarrow> nat" where
  "weight kvs = sum_list (map (\<lambda>(k, v). length k + length v + 21) kvs)"

definition keys_len :: "(key \<times> byte list) list \<Rightarrow> nat" where
  "keys_len kvs = sum_list (map (\<lambda>(k, v). length k + 1) kvs)"

definition defs_len :: "(key \<times> byte list) list \<Rightarrow> nat" where
  "defs_len kvs = sum_list (map (\<lambda>(k, v). length v + 12) kvs)"

text \<open>The encoding of an index table.\<close>

definition enc32 :: "u32 list \<Rightarrow> byte list" where
  "enc32 xs = concat (map uint32_LE xs)"

text \<open>
  The part of the file before the defs section lists the entries \<open>D\<close>, in this order:
  header, word-index table, def-index table and packed keys.
\<close>

definition disk_index :: "byte list \<Rightarrow> u32 \<Rightarrow> u32 \<Rightarrow> word_info list \<Rightarrow> bool" where
  "disk_index f rw wss D =
     (length D \<le> unat rw \<and> words_len D \<le> unat wss
      \<and> bytes_at f 0 (magic_bytes @ uint32_LE rw @ uint32_LE wss @ uint32_LE (of_nat (length D)))
      \<and> bytes_at f 19 (enc32 (map (\<lambda>i. of_nat (i + 1)) (new_word_inds 0 D)
                                 @ replicate (unat rw - length D) 0))
      \<and> bytes_at f (19 + 4 * unat rw) (enc32 (map (\<lambda>e. snd e + 1) D
                                                @ replicate (unat rw - length D) 0))
      \<and> bytes_at f (19 + 8 * unat rw) (packed_words D))"

text \<open>The entries of the index that a flush has written: those before \<open>first_new_word\<close>.\<close>

definition flushed :: "dictionary_file \<Rightarrow> word_info list" where
  "flushed s = (case first_new_word s of None \<Rightarrow> words s | Some n \<Rightarrow> take n (words s))"

text \<open>
  What the object and its file have to do with the pairs \<open>kvs\<close> inserted so far:
  \<^item> the index is sorted up to \<open>first_new_word\<close> and holds exactly the keys of \<open>kvs\<close>, once each;
  \<^item> every entry of the index points at the record of the definition of its key;
  \<^item> with deduplication, every offset in \<open>existing_defs\<close> points at the record of an
    inserted definition with the size and hash it is filed under;
  \<^item> the file lists the flushed entries before its defs section;
  \<^item> the sections have not outgrown the data: everything fits in 32 bits.
\<close>

definition engine_inv :: "dictionary_file \<Rightarrow> (key \<times> byte list) list \<Rightarrow> bool" where
  "engine_inv s kvs =
     (index_wf s \<and> distinct (map fst kvs)
      \<and> mset (map fst (words s)) = mset (map fst kvs)
      \<and> (\<forall>e \<in> set (words s). \<exists>v. (fst e, v) \<in> set kvs \<and> record_at s (snd e) v)
      \<and> (do_dedup s \<longrightarrow>
            (\<forall>sz inner h cands c. existing_defs s sz = Some inner \<and> inner h = Some cands
                \<and> c \<in> set cands
              \<longrightarrow> (\<exists>v \<in> snd ` set kvs. record_at s c v \<and> of_nat (length v) = sz
                      \<and> fnv1a v fnv_init = h)))
      \<and> (\<exists>D. mset D = mset (flushed s)
               \<and> disk_index (file_data s) (reserved_words s) (words_sect_size s) D)
      \<and> (file_open_type s = ot_read \<or> file_open_type s = ot_read_write)
      \<and> reserved_words s \<noteq> 0 \<and> words_sect_size s \<noteq> 0
      \<and> unat (reserved_words s) \<le> 32 + 2 * length kvs
      \<and> unat (words_sect_size s) \<le> 256 + 2 * keys_len kvs
      \<and> defs_section_offset (reserved_words s) (words_sect_size s) \<le> length (file_data s)
      \<and> length (file_data s)
            \<le> defs_section_offset (reserved_words s) (words_sect_size s) + defs_len kvs
      \<and> weight kvs < 2 ^ 28)"

section \<open>Properties of the engine\<close>

subsection \<open>Lookup\<close>

lemma lower_bound_spec:
  shows "sorted (map fst (take n ws)) \<Longrightarrow> n \<le> length ws \<Longrightarrow> first + len \<le> n \<Longrightarrow> (\<forall>i<first. fst (ws ! i) < w) \<Longrightarrow>
         (\<forall>i. first + len \<le> i \<and> i < n \<longrightarrow> w \<le> fst (ws ! i)) \<Longrightarrow>
         first \<le> lower_bound ws w first len \<and> lower_bound ws w first len \<le> first + len \<and>
         (\<forall>i<lower_bound ws w first len. fst (ws ! i) < w) \<and>
         (\<forall>i. lower_bound ws w first len \<le> i \<and> i < n \<longrightarrow> w \<le> fst (ws ! i))"
proof (induction ws w first len rule: lower_bound.induct)
  case (1 ws w first len)
  note assms = "1.prems"(1,2)
  note prems = "1.prems"(3,4,5)
  have mono: "fst (ws ! i) \<le> fst (ws ! j)" if "i \<le> j" "j < n" for i j
  proof -
    have "map fst (take n ws) ! i \<le> map fst (take n ws) ! j"
      using assms that by (intro sorted_nth_mono) auto
    then show ?thesis using that assms by simp
  qed
  show ?case
  proof (cases "len = 0")
    case True
    then show ?thesis using prems by (simp add: lower_bound.simps)
  next
    case False
    define half where "half = len div 2"
    define middle where "middle = first + half"
    have mid: "middle < n" using False prems(1) by (simp add: middle_def half_def)
    show ?thesis
    proof (cases "fst (ws ! middle) < w")
      case True
      have eq: "lower_bound ws w first len = lower_bound ws w (middle + 1) (len - half - 1)"
        using False True by (subst lower_bound.simps) (simp add: half_def middle_def Let_def)
      have a: "middle + 1 + (len - half - 1) \<le> n"
        using prems(1) False by (simp add: middle_def half_def)
      have b: "\<forall>i<middle + 1. fst (ws ! i) < w"
      proof (intro allI impI)
        fix i assume "i < middle + 1"
        then have "fst (ws ! i) \<le> fst (ws ! middle)" using mono mid by simp
        then show "fst (ws ! i) < w" using True by simp
      qed
      have c: "\<forall>i. middle + 1 + (len - half - 1) \<le> i \<and> i < n \<longrightarrow> w \<le> fst (ws ! i)"
        using prems(3) False by (simp add: middle_def half_def)
      have d: "middle + 1 + (len - half - 1) = first + len"
        using False by (simp add: middle_def half_def)
      from "1.IH"(1)[OF False half_def middle_def True assms a b c] show ?thesis
        unfolding eq d by (auto simp: middle_def)
    next
      case nlt: False
      have eq: "lower_bound ws w first len = lower_bound ws w first half"
        using False nlt by (subst lower_bound.simps) (simp add: half_def middle_def Let_def)
      have a: "first + half \<le> n" using mid by (simp add: middle_def)
      have c: "\<forall>i. first + half \<le> i \<and> i < n \<longrightarrow> w \<le> fst (ws ! i)"
      proof (intro allI impI)
        fix i assume "first + half \<le> i \<and> i < n"
        then have "fst (ws ! middle) \<le> fst (ws ! i)" using mono by (simp add: middle_def)
        then show "w \<le> fst (ws ! i)" using nlt by simp
      qed
      from "1.IH"(2)[OF False half_def middle_def nlt assms a prems(2) c] show ?thesis
        unfolding eq by (auto simp: half_def)
    qed
  qed
qed

lemma find_def_ind_map_of:
  assumes "index_wf s"
  shows "find_def_ind s w = (case map_of (words s) w of None \<Rightarrow> - 1 | Some d \<Rightarrow> d)"
proof -
  define ws where "ws = words s"
  define n where "n = (case first_new_word s of None \<Rightarrow> length ws | Some n \<Rightarrow> n)"
  define it where "it = lower_bound ws w 0 n"
  have n: "n \<le> length ws" and srt: "sorted (map fst (take n ws))" and dist: "distinct (map fst ws)"
    using assms unfolding index_wf_def Let_def ws_def n_def by simp_all
  have "0 \<le> it \<and> it \<le> 0 + n \<and> (\<forall>i<it. fst (ws ! i) < w)
      \<and> (\<forall>i. it \<le> i \<and> i < n \<longrightarrow> w \<le> fst (ws ! i))"
    unfolding it_def by (rule lower_bound_spec[OF srt n]) auto
  then have lb: "it \<le> n" "\<forall>i<it. fst (ws ! i) < w" "\<forall>i. it \<le> i \<and> i < n \<longrightarrow> w \<le> fst (ws ! i)"
    by auto
  have mono: "fst (ws ! i) \<le> fst (ws ! j)" if "i \<le> j" "j < n" for i j
  proof -
    have "map fst (take n ws) ! i \<le> map fst (take n ws) ! j"
      using srt n that by (intro sorted_nth_mono) auto
    then show ?thesis using that n by simp
  qed
  have unf: "find_def_ind s w =
      (if it = n \<or> fst (ws ! it) \<noteq> w
         then (if n = length ws then - 1
               else (case List.find (\<lambda>e. fst e = w) (drop n ws) of None \<Rightarrow> - 1 | Some e \<Rightarrow> snd e))
         else snd (ws ! it))"
    unfolding it_def n_def ws_def find_def_ind_def Let_def by (rule refl)
  show ?thesis
  proof (cases "it = n \<or> fst (ws ! it) \<noteq> w")
    case False
    then have "it < n" "fst (ws ! it) = w" using lb(1) by auto
    then have "(w, snd (ws ! it)) \<in> set ws" using n by (metis nth_mem order_less_le_trans prod.collapse)
    then have "map_of ws w = Some (snd (ws ! it))" using dist by simp
    then show ?thesis using False unf by (simp add: ws_def)
  next
    case True
    have nopre: "w \<notin> fst ` set (take n ws)"
    proof
      assume "w \<in> fst ` set (take n ws)"
      then obtain j where j: "j < n" "fst (ws ! j) = w"
        using n by (auto simp: in_set_conv_nth)
      show False
      proof (cases "j < it")
        case True then show ?thesis using lb(2) j by auto
      next
        case False
        then have "it < n" using j by simp
        moreover have "w \<le> fst (ws ! it)" using lb(3) \<open>it < n\<close> by simp
        moreover have "fst (ws ! it) \<le> w" using mono[of it j] False j by simp
        ultimately show ?thesis using True by simp
      qed
    qed
    have split: "map_of ws w = map_of (drop n ws) w"
    proof -
      have none: "map_of (take n ws) w = None"
        using nopre by (simp add: map_of_eq_None_iff)
      have "map_of ws w = map_of (take n ws @ drop n ws) w" by simp
      also have "\<dots> = map_of (drop n ws) w"
        using none by (simp only: map_of_append map_add_def) simp
      finally show ?thesis .
    qed
    have findmap: "(case List.find (\<lambda>e. fst e = w) xs of None \<Rightarrow> - 1 | Some e \<Rightarrow> snd e)
        = (case map_of xs w of None \<Rightarrow> (- 1 :: u32) | Some d \<Rightarrow> d)" for xs :: "word_info list"
      by (induction xs) auto
    show ?thesis
    proof (cases "n = length ws")
      case True
      then show ?thesis using \<open>it = n \<or> fst (ws ! it) \<noteq> w\<close> unf split by (simp add: ws_def)
    next
      case False
      then show ?thesis using True unf split findmap by (simp add: ws_def)
    qed
  qed
qed


text \<open>
  C10. Whenever the index (sorted prefix, unsorted tail, no key twice) stores a word with the
  def offset \<open>2^32 - 1\<close>, \<open>contains\<close> answers false and \<open>find\<close> returns the absent
  optional for that word, because \<open>find_def_ind\<close> returns the same value for "not found";
  and when no stored def offset is \<open>2^32 - 1\<close>, \<open>contains\<close> is true, and \<open>find\<close> is not
  the absent optional, exactly for the stored words.
\<close>

theorem sentinel_def_ind_hides_word:
  assumes "index_wf s"
  shows "((w, - 1) \<in> set (words s) \<longrightarrow>
            \<not> contains s w \<and> find s w check_def = Inr None) \<and>
         ((\<forall>e \<in> set (words s). snd e \<noteq> - 1) \<longrightarrow>
            (contains s w \<longleftrightarrow> w \<in> fst ` set (words s)) \<and>
            (find s w check_def \<noteq> Inr None \<longleftrightarrow> w \<in> fst ` set (words s)))"
proof (intro conjI impI)
  have dist: "distinct (map fst (words s))"
    using assms by (simp add: index_wf_def Let_def)
  note fd = find_def_ind_map_of[OF assms, of w]
  {
    assume "(w, - 1) \<in> set (words s)"
    then have "map_of (words s) w = Some (- 1)" using dist by simp
    then have "find_def_ind s w = - 1" using fd by simp
    then show "\<not> contains s w" "find s w check_def = Inr None"
      by (simp_all add: contains_def find_def Let_def)
  }
  assume nosent: "\<forall>e \<in> set (words s). snd e \<noteq> - 1"
  have iff: "find_def_ind s w \<noteq> - 1 \<longleftrightarrow> w \<in> fst ` set (words s)"
  proof (cases "map_of (words s) w")
    case None
    then have "w \<notin> fst ` set (words s)" by (simp add: map_of_eq_None_iff)
    then show ?thesis using fd None by simp
  next
    case (Some d)
    then have "(w, d) \<in> set (words s)" by (rule map_of_SomeD)
    then show ?thesis using fd Some nosent by force
  qed
  show "contains s w \<longleftrightarrow> w \<in> fst ` set (words s)"
    using iff by (simp add: contains_def)
  show "find s w check_def \<noteq> Inr None \<longleftrightarrow> w \<in> fst ` set (words s)"
    using iff by (auto simp: find_def Let_def ebind_def split: sum.splits)
qed

theorem sentinel_def_ind_hides_word_witness:
  "index_wf sentinel_state \<and> ([98], - 1) \<in> set (words sentinel_state) \<and>
   \<not> contains sentinel_state [98] \<and> find sentinel_state [98] False = Inr None \<and>
   index_wf plain_state \<and> - 1 \<notin> snd ` set (words plain_state) \<and>
   contains plain_state [98] \<and> \<not> contains plain_state [100] \<and>
   find plain_state [98] False \<noteq> Inr None \<and> find plain_state [100] False = Inr None"
proof -
  have wf1: "index_wf sentinel_state"
    by (simp add: index_wf_def sentinel_state_def)
  have wf2: "index_wf plain_state"
    by (simp add: index_wf_def sentinel_state_def plain_state_def)
  have m1: "([98], - 1) \<in> set (words sentinel_state)"
    by (simp add: sentinel_state_def)
  have m2: "\<forall>e \<in> set (words plain_state). snd e \<noteq> - 1"
    by (simp add: sentinel_state_def plain_state_def)
  have m3: "- 1 \<notin> snd ` set (words plain_state)"
    by (simp add: sentinel_state_def plain_state_def)
  have k1: "[98] \<in> fst ` set (words plain_state)" and k2: "[100] \<notin> fst ` set (words plain_state)"
    by (simp_all add: sentinel_state_def plain_state_def)
  show ?thesis
    using sentinel_def_ind_hides_word[OF wf1, of "[98]" False]
      sentinel_def_ind_hides_word[OF wf2, of "[98]" False]
      sentinel_def_ind_hides_word[OF wf2, of "[100]" False] wf1 wf2 m1 m2 k1 k2 m3
    by blast
qed

subsection \<open>Growth of the sections\<close>






lemma ebind_Inr_iff: "ebind m f = Inr y \<longleftrightarrow> (\<exists>x. m = Inr x \<and> f x = Inr y)"
  by (cases m) (auto simp: ebind_def)




















subsection \<open>The index tables read by open\<close>

lemma adjacent_dup_sorted:
  "sorted xs \<Longrightarrow> adjacent_dup xs \<longleftrightarrow> \<not> distinct xs"
proof (induction xs rule: adjacent_dup.induct)
  case (1 x y zs)
  then show ?case by (auto simp: order_antisym)
qed auto

lemma sort_and_find_dup_zipped_iff:
  assumes "length word_inds = length def_inds"
  shows "sort_and_find_dup_zipped word_inds def_inds \<longleftrightarrow> \<not> distinct word_inds"
proof -
  let ?zs = "sort_zipped word_inds def_inds"
  have srt: "sorted (map fst ?zs)" by (simp add: sort_zipped_def)
  have "mset (map fst ?zs) = mset (map fst (zip word_inds def_inds))"
    by (simp add: sort_zipped_def)
  also have "\<dots> = mset word_inds" using assms by simp
  finally have "distinct (map fst ?zs) \<longleftrightarrow> distinct word_inds"
    by (rule mset_eq_imp_distinct_iff)
  then show ?thesis
    using adjacent_dup_sorted[OF srt] by (simp add: sort_and_find_dup_zipped_def)
qed

lemma ebind_Inl_iff:
  "ebind m f = Inl e \<longleftrightarrow> m = Inl e \<or> (\<exists>x. m = Inr x \<and> f x = Inl e)"
  by (cases m) (auto simp: ebind_def)

lemma read_bytes_Inl: "read_bytes f pos n = Inl e \<Longrightarrow> e \<noteq> repeated_indices"
  by (auto simp: read_bytes_def repeated_indices_def split: if_splits)

lemma file_read_Inl: "file_read s pos n = Inl e \<Longrightarrow> e \<noteq> repeated_indices"
  by (auto simp: file_read_def repeated_indices_def dest: read_bytes_Inl split: if_splits)

lemma get_def_size_and_hash_Inl:
  "get_def_size_and_hash s d x off = Inl e \<Longrightarrow> e \<noteq> repeated_indices"
  unfolding get_def_size_and_hash_def Let_def
  by (auto simp: ebind_Inl_iff repeated_indices_def dest: file_read_Inl split: if_splits)

lemma read_def_batched_Inl: "read_def_batched f i sz pos arr = Inl e \<Longrightarrow> e \<noteq> repeated_indices"
  unfolding read_def_batched_def Let_def
  by (auto simp: ebind_Inl_iff dest: read_bytes_Inl)

lemma hash_batches_Inl: "hash_batches f sz pos is h = Inl e \<Longrightarrow> e \<noteq> repeated_indices"
  by (induction "is" arbitrary: h)
     (auto simp: ebind_Inl_iff dest: read_def_batched_Inl split: prod.splits)

lemma hash_existing_def_Inl: "hash_existing_def s d x = Inl e \<Longrightarrow> e \<noteq> repeated_indices"
  unfolding hash_existing_def_def Let_def
  by (auto simp: ebind_Inl_iff repeated_indices_def dest: file_read_Inl hash_batches_Inl
        split: if_splits)

lemma load_defs_Inl: "load_defs s d v ws = Inl e \<Longrightarrow> e \<noteq> repeated_indices"
proof (induction ws arbitrary: s)
  case Nil
  then show ?case by simp
next
  case (Cons a ws)
  then show ?case
    by (auto simp: ebind_Inl_iff Let_def repeated_indices_def
          dest: get_def_size_and_hash_Inl hash_existing_def_Inl split: if_splits prod.splits)
qed

lemma read_word_Inl: "read_word f pos n = Inl e \<Longrightarrow> e \<noteq> repeated_indices"
  by (induction n arbitrary: pos)
     (auto simp: ebind_Inl_iff repeated_indices_def split: if_splits)

lemma read_words_Inl: "read_words f off wss zs = Inl e \<Longrightarrow> e \<noteq> repeated_indices"
  by (induction zs) (auto simp: ebind_Inl_iff dest: read_word_Inl)


lemma ebind_Inr [simp]: "ebind (Inr x) f = f x"
  by (simp add: ebind_def)

lemma ebind_Inl [simp]: "ebind (Inl e) f = Inl e"
  by (simp add: ebind_def)

lemma adjacent_dup_sort_key:
  "adjacent_dup (map fst (sort_key fst ws)) \<longleftrightarrow> \<not> distinct (map fst ws)"
proof -
  have "mset (map fst (sort_key fst ws)) = mset (map fst ws)" by simp
  then have "distinct (map fst (sort_key fst ws)) \<longleftrightarrow> distinct (map fst ws)"
    by (rule mset_eq_imp_distinct_iff)
  moreover have "sorted (map fst (sort_key fst ws))" by simp
  ultimately show ?thesis using adjacent_dup_sorted by blast
qed

lemma read_file_tables:
  assumes "tables_read (file_data s) rw wss word_inds def_inds"
  shows "read_file s =
     (if \<not> distinct word_inds then Inl repeated_indices
      else ebind (read_words (file_data s) (words_section_offset rw) wss
                    (sort_zipped word_inds def_inds)) (\<lambda>ws.
             if \<not> distinct (map fst ws)
             then Inl (Runtime_error ''Found repeated words. File may be corrupted'')
             else Inr (s\<lparr>reserved_words := rw, words_sect_size := wss,
                         words := sort_key fst ws\<rparr>)))"
proof -
  from assms obtain nw where h:
    "read_bytes (file_data s) 0 (length magic_bytes) = Inr magic_bytes"
    "read_uint32_LE (file_data s) 7 = Inr rw" "rw \<noteq> 0"
    "read_uint32_LE (file_data s) 11 = Inr wss" "wss \<noteq> 0"
    "read_uint32_LE (file_data s) 15 = Inr nw" "unat nw \<le> unat rw"
    "unat rw * 8 + unat nw \<le> length (file_data s)"
    "length word_inds = unat nw" "length def_inds = unat nw"
    "read_inds (file_data s) 19 (unat rw) = Inr word_inds"
    "read_inds (file_data s) (19 + 4 * unat rw) (unat rw) = Inr def_inds"
    by (auto simp: tables_read_def split: sum.splits)
  have len: "length word_inds = length def_inds" using h by simp
  have n1: "\<not> unat rw < unat nw" using h(7) by simp
  have n2: "\<not> length (file_data s) < unat rw * 8 + unat nw" using h(8) by simp
  show ?thesis
    unfolding read_file_def Let_def
    by (simp add: h n1 n2 sort_and_find_dup_zipped_iff[OF len] adjacent_dup_sort_key
          repeated_indices_def)
qed

lemma read_bytes_Inr:
  "read_bytes f pos n = Inr bs \<longleftrightarrow> pos + n \<le> length f \<and> bs = take n (drop pos f)"
  by (auto simp: read_bytes_def)

subsection \<open>Batched reads of a payload\<close>

lemma fnv1a_append: "fnv1a (a @ b) h = fnv1a b (fnv1a a h)"
  by (induction a arbitrary: h) auto

lemma num_batches_eq: "sz \<noteq> 0 \<Longrightarrow> num_batches sz = (unat sz - 1) div 4096 + 1"
  by (simp add: num_batches_def batch_size_def unat_minus_one)

lemma batch_in_range:
  assumes "sz \<noteq> 0" "k < num_batches sz"
  shows "k * 4096 < unat sz"
proof -
  have "0 < unat sz" using assms(1) by (simp add: unat_gt_0)
  moreover have "k \<le> (unat sz - 1) div 4096" using assms by (simp add: num_batches_eq)
  then have "k * 4096 \<le> unat sz - 1" by (simp add: less_eq_div_iff_mult_less_eq)
  ultimately show ?thesis by simp
qed

lemma batch_out_of_range:
  assumes "sz \<noteq> 0" "num_batches sz \<le> k"
  shows "unat sz \<le> k * 4096"
proof -
  have "(unat sz - 1) div 4096 < k" using assms by (simp add: num_batches_eq)
  then have "unat sz - 1 < k * 4096" by (simp add: div_less_iff_less_mult)
  then show ?thesis by simp
qed

lemma read_def_batched_ok:
  assumes "pos + unat sz \<le> length f" "k * 4096 < unat sz"
  shows "read_def_batched f k sz pos arr =
           Inr (take (min (unat sz - k * 4096) 4096) (drop (pos + k * 4096) f)
                  @ drop (min (unat sz - k * 4096) 4096) arr,
                min (unat sz - k * 4096) 4096)"
  using assms by (simp add: read_def_batched_def batch_size_def read_bytes_def Let_def)

lemma take_batch:
  "take (min m 4096) xs @ take (m - 4096) (drop 4096 xs) = take m (xs :: 'a list)"
proof (cases "m \<le> 4096")
  case True
  then show ?thesis by (simp add: min_def)
next
  case False
  then have "m = 4096 + (m - 4096)" by simp
  then have "take m xs = take 4096 xs @ take (m - 4096) (drop 4096 xs)"
    by (metis take_add)
  then show ?thesis using False by (simp add: min_def)
qed

lemma batch_step:
  assumes "pos + unat sz \<le> length f" "sz \<noteq> 0" "k < num_batches sz"
  defines "xs \<equiv> drop (pos + k * 4096) f" and "m \<equiv> unat sz - k * 4096"
  shows "read_def_batched f k sz pos arr
           = Inr (take (min m 4096) xs @ drop (min m 4096) arr, min m 4096)"
    and "take (min m 4096) (take (min m 4096) xs @ drop (min m 4096) arr)
           = take (min m 4096) xs"
    and "drop (pos + Suc k * 4096) f = drop 4096 xs"
    and "unat sz - Suc k * 4096 = m - 4096"
    and "[k..<num_batches sz] = k # [Suc k..<num_batches sz]"
    and "length (take (min m 4096) xs) = min m 4096"
proof -
  note r = batch_in_range[OF assms(2,3)]
  show "read_def_batched f k sz pos arr
           = Inr (take (min m 4096) xs @ drop (min m 4096) arr, min m 4096)"
    unfolding xs_def m_def by (rule read_def_batched_ok[OF assms(1) r])
  show len: "length (take (min m 4096) xs) = min m 4096"
    using assms(1) r by (simp add: xs_def m_def)
  show "take (min m 4096) (take (min m 4096) xs @ drop (min m 4096) arr)
           = take (min m 4096) xs"
    using len by simp
  show "drop (pos + Suc k * 4096) f = drop 4096 xs"
    by (simp add: xs_def add.commute add.left_commute)
  show "unat sz - Suc k * 4096 = m - 4096" by (simp add: m_def)
  show "[k..<num_batches sz] = k # [Suc k..<num_batches sz]"
    by (rule upt_conv_Cons[OF assms(3)])
qed

lemma hash_batches_ok:
  assumes "pos + unat sz \<le> length f" "sz \<noteq> 0"
  shows "k \<le> num_batches sz \<Longrightarrow>
     hash_batches f sz pos [k..<num_batches sz] h =
       Inr (fnv1a (take (unat sz - k * 4096) (drop (pos + k * 4096) f)) h)"
proof (induction "num_batches sz - k" arbitrary: k h)
  case 0
  then have "k = num_batches sz" by simp
  then show ?case using batch_out_of_range[OF assms(2), of k] by simp
next
  case (Suc d)
  then have lt: "k < num_batches sz" by simp
  note st = batch_step[OF assms lt]
  have d: "d = num_batches sz - Suc k" using Suc(2) by simp
  have le: "Suc k \<le> num_batches sz" using lt by simp
  note ih = Suc(1)[OF d le, unfolded st(3,4)]
  show ?case
    unfolding st(5) hash_batches.simps st(1) ebind_Inr prod.case st(2) ih
    by (simp only: take_batch flip: fnv1a_append)
qed

lemma record_ok_reads:
  assumes "record_ok f off d"
  obtains cs hs where "read_bytes f (off + unat d) 4 = Inr cs" "uint32_of_bytes cs \<noteq> 0"
    "read_bytes f (off + unat d + 4) 8 = Inr hs"
    "off + unat d + 12 + unat (uint32_of_bytes cs) \<le> length f"
    "fnv1a (take (unat (uint32_of_bytes cs)) (drop (off + unat d + 12) f)) fnv_init
       = uint64_of_bytes hs"
  using assms unfolding record_ok_def read_uint32_LE_def read_uint64_LE_def
  by (auto simp: ebind_def read_bytes_Inr split: sum.splits)

lemma load_defs_ok:
  assumes "file_open_type s = ot_read \<or> file_open_type s = ot_read_write"
    and "\<forall>e \<in> set ws. record_ok (file_data s)
            (defs_section_offset (reserved_words s) (words_sect_size s)) (snd e)"
  shows "\<exists>ed. load_defs s deduplicate check_defs ws = Inr (s\<lparr>existing_defs := ed\<rparr>)"
  using assms
proof (induction ws arbitrary: s)
  case Nil
  have "s = s\<lparr>existing_defs := existing_defs s\<rparr>" by simp
  then show ?case by (metis load_defs.simps(1))
next
  case (Cons e ws)
  let ?off = "defs_section_offset (reserved_words s) (words_sect_size s)"
  let ?f = "file_data s"
  have ok: "record_ok ?f ?off (snd e)" using Cons.prems(2) by simp
  from record_ok_reads[OF ok] obtain cs hs where r:
    "read_bytes ?f (?off + unat (snd e)) 4 = Inr cs" "uint32_of_bytes cs \<noteq> 0"
    "read_bytes ?f (?off + unat (snd e) + 4) 8 = Inr hs"
    "?off + unat (snd e) + 12 + unat (uint32_of_bytes cs) \<le> length ?f"
    "fnv1a (take (unat (uint32_of_bytes cs)) (drop (?off + unat (snd e) + 12) ?f)) fnv_init
       = uint64_of_bytes hs" by blast
  let ?sz = "uint32_of_bytes cs" and ?h = "uint64_of_bytes hs"
  define s1 where "s1 = (if deduplicate
       then s\<lparr>existing_defs := push_existing (existing_defs s) ?sz ?h (snd e)\<rparr> else s)"
  have sel: "file_data s1 = ?f" "reserved_words s1 = reserved_words s"
    "words_sect_size s1 = words_sect_size s" "file_open_type s1 = file_open_type s"
    by (simp_all add: s1_def)
  have g: "get_def_size_and_hash s (snd e) 0 ?off = Inr (?sz, ?h)"
    using Cons.prems(1) r by (simp add: get_def_size_and_hash_def file_read_def Let_def)
  have hb: "hash_batches ?f ?sz (?off + unat (snd e) + 12) [0..<num_batches ?sz] fnv_init
      = Inr ?h"
    using hash_batches_ok[OF r(4) r(2), of 0 fnv_init] r(5) by simp
  have he: "hash_existing_def s1 (snd e) ?sz = Inr (Some ?h)"
    using Cons.prems(1) r(1,2) hb
    by (simp add: hash_existing_def_def file_read_def Let_def sel)
  have pre: "file_open_type s1 = ot_read \<or> file_open_type s1 = ot_read_write"
    "\<forall>e \<in> set ws. record_ok (file_data s1)
        (defs_section_offset (reserved_words s1) (words_sect_size s1)) (snd e)"
    using Cons.prems by (simp_all add: sel)
  from Cons.IH[OF pre] obtain ed where
    ih: "load_defs s1 deduplicate check_defs ws = Inr (s1\<lparr>existing_defs := ed\<rparr>)" by blast
  have "s1\<lparr>existing_defs := ed\<rparr> = s\<lparr>existing_defs := ed\<rparr>" by (simp add: s1_def)
  then have "load_defs s deduplicate check_defs (e # ws) = Inr (s\<lparr>existing_defs := ed\<rparr>)"
    using g r(2) he ih by (cases check_defs) (simp_all add: s1_def[symmetric] Let_def)
  then show ?case by blast
qed

lemma read_words_snd:
  "read_words f off wss zs = Inr ws \<Longrightarrow> map snd ws = map snd zs"
proof (induction zs arbitrary: ws)
  case Nil
  then show ?case by simp
next
  case (Cons z zs)
  obtain wo d where z: "z = (wo, d)" by (cases z)
  from Cons.prems obtain w ws' where "read_words f off wss zs = Inr ws'" "ws = (w, d) # ws'"
    by (auto simp: z ebind_Inr_iff)
  then show ?case using Cons.IH by (simp add: z)
qed

lemma sort_zipped_snd: "set (map snd (sort_zipped a b)) \<subseteq> set b"
proof -
  have "set (sort_zipped a b) = set (zip a b)" by (simp add: sort_zipped_def)
  then show ?thesis by (auto dest: set_zip_rightD)
qed

text \<open>
  C7. Let a file pass the checks of \<open>read_file\<close> up to the count of the valid indices, with
  the word offsets \<open>word_inds\<close> and the def offsets \<open>def_inds\<close> read from its two tables
  (any number of words). Then \<open>open\<close>, with any arguments, fails with "Found repeated
  indices" exactly when two entries of the word-index table are equal; the def-index
  table plays no part in it. And when the word offsets are pairwise distinct, the words
  read at them are pairwise distinct, and every def offset points at a record (which
  matters only when \<open>open\<close> loads the records, for \<open>deduplicate\<close> or \<open>check_defs\<close>), then
  \<open>open\<close>, with any arguments, succeeds with those words, whatever def offsets are shared.
\<close>

theorem word_index_unique_def_index_shared:
  assumes "tables_read f rw wss word_inds def_inds"
  shows "(open_file s (Regular f) create_if_not_exists deduplicate check_defs = Inl repeated_indices
            \<longleftrightarrow> \<not> distinct word_inds)
     \<and> (\<forall>ws. distinct word_inds
            \<and> read_words f (words_section_offset rw) wss (sort_zipped word_inds def_inds) = Inr ws
            \<and> distinct (map fst ws)
            \<and> (deduplicate \<or> check_defs
                 \<longrightarrow> (\<forall>d \<in> set def_inds. record_ok f (defs_section_offset rw wss) d))
          \<longrightarrow> (\<exists>ed. open_file s (Regular f) create_if_not_exists deduplicate check_defs
              = Inr (s\<lparr>file_open_type := ot_read, do_dedup := deduplicate, file_data := f,
                        reserved_words := rw, words_sect_size := wss,
                        words := sort_key fst ws, existing_defs := ed,
                        created_file := False\<rparr>)))"
proof -
  define s1 where "s1 = open_in (s\<lparr>file_open_type := ot_none, do_dedup := deduplicate, file_data := f\<rparr>)"
  have f1: "file_data s1 = f" by (simp add: s1_def open_in_def)
  note rf = read_file_tables[of s1, unfolded f1, OF assms]
  have op: "open_file s (Regular f) create_if_not_exists deduplicate check_defs
      = ebind (read_file s1) (\<lambda>s2.
          ebind (if deduplicate \<or> check_defs then load_defs s2 deduplicate check_defs (words s2)
                 else Inr s2) (\<lambda>s3. Inr (s3\<lparr>created_file := False\<rparr>)))"
    by (simp add: open_file_def s1_def Let_def)
  have a: "open_file s (Regular f) create_if_not_exists deduplicate check_defs = Inl repeated_indices"
    if "\<not> distinct word_inds"
    using that by (simp add: op rf)
  have ne: "Runtime_error ''Found repeated words. File may be corrupted'' \<noteq> repeated_indices"
    by (simp add: repeated_indices_def)
  have b: "open_file s (Regular f) create_if_not_exists deduplicate check_defs \<noteq> Inl repeated_indices"
    if "distinct word_inds"
  proof
    assume e: "open_file s (Regular f) create_if_not_exists deduplicate check_defs = Inl repeated_indices"
    then consider "read_file s1 = Inl repeated_indices"
      | s2 where "load_defs s2 deduplicate check_defs (words s2) = Inl repeated_indices"
      unfolding op by (auto simp: ebind_Inl_iff split: if_splits)
    then show False
    proof cases
      case 1
      then show ?thesis using that ne
        by (auto simp: rf ebind_Inl_iff split: if_splits dest: read_words_Inl)
    next
      case 2
      then show ?thesis using load_defs_Inl by blast
    qed
  qed
  have c: "\<exists>ed. open_file s (Regular f) create_if_not_exists deduplicate check_defs
              = Inr (s\<lparr>file_open_type := ot_read, do_dedup := deduplicate, file_data := f,
                        reserved_words := rw, words_sect_size := wss,
                        words := sort_key fst ws, existing_defs := ed,
                        created_file := False\<rparr>)"
    if t: "distinct word_inds"
      "read_words f (words_section_offset rw) wss (sort_zipped word_inds def_inds) = Inr ws"
      "distinct (map fst ws)"
      "deduplicate \<or> check_defs
         \<longrightarrow> (\<forall>d \<in> set def_inds. record_ok f (defs_section_offset rw wss) d)" for ws
  proof -
    define s2 where "s2 = s1\<lparr>reserved_words := rw, words_sect_size := wss,
        words := sort_key fst ws\<rparr>"
    have r2: "read_file s1 = Inr s2" by (simp add: rf t s2_def)
    have sel: "file_data s2 = f" "reserved_words s2 = rw" "words_sect_size s2 = wss"
      "file_open_type s2 = ot_read" "words s2 = sort_key fst ws"
      by (simp_all add: s2_def s1_def open_in_def)
    show ?thesis
    proof (cases "deduplicate \<or> check_defs")
      case False
      show ?thesis unfolding op r2 using False
        by (intro exI[of _ "existing_defs s"]) (simp add: s2_def s1_def open_in_def)
    next
      case True
      have "set (map snd (sort_key fst ws)) = set (map snd ws)" by simp
      also have "\<dots> \<subseteq> set def_inds"
        unfolding read_words_snd[OF t(2)] by (rule sort_zipped_snd)
      finally have sub: "snd ` set (words s2) \<subseteq> set def_inds" by (simp add: sel)
      have ok: "\<forall>e \<in> set (words s2). record_ok (file_data s2)
            (defs_section_offset (reserved_words s2) (words_sect_size s2)) (snd e)"
        using t(4) True sub by (auto simp: sel(1,2,3))
      from load_defs_ok[OF _ ok, of deduplicate check_defs] obtain ed where
        ld: "load_defs s2 deduplicate check_defs (words s2) = Inr (s2\<lparr>existing_defs := ed\<rparr>)"
        by (auto simp: sel)
      have "s2\<lparr>existing_defs := ed, created_file := False\<rparr>
          = s\<lparr>file_open_type := ot_read, do_dedup := deduplicate, file_data := f,
                        reserved_words := rw, words_sect_size := wss,
                        words := sort_key fst ws, existing_defs := ed,
                        created_file := False\<rparr>"
        by (simp add: s2_def s1_def open_in_def)
      then show ?thesis unfolding op r2 using True ld by auto
    qed
  qed
  show ?thesis using a b c by blast
qed

theorem word_index_unique_def_index_shared_witness:
  "tables_read shared_def_file 2 4 [0, 2] [0, 0]
   \<and> distinct [0, 2 :: u32] \<and> \<not> distinct [0, 0 :: u32]
   \<and> record_ok shared_def_file (defs_section_offset 2 4) 0
   \<and> (case open_file new_dictionary_file (Regular shared_def_file) True True True of
         Inr s' \<Rightarrow> words s' = [([97], 0), ([98], 0)]
       | Inl e \<Rightarrow> False)
   \<and> tables_read shared_word_file 2 4 [0, 0] [0, 13]
   \<and> open_file new_dictionary_file (Regular shared_word_file) True True True
       = Inl repeated_indices"
proof -
  have t1: "tables_read shared_def_file 2 4 [0, 2] [0, 0]" by code_simp
  have t2: "tables_read shared_word_file 2 4 [0, 0] [0, 13]" by code_simp
  have rw: "read_words shared_def_file (words_section_offset 2) 4 (sort_zipped [0, 2] [0, 0])
      = Inr [([97], 0), ([98], 0)]" by code_simp
  have ok: "record_ok shared_def_file (defs_section_offset 2 4) 0" by code_simp
  have d: "distinct [0, 2 :: u32]" "\<not> distinct [0, 0 :: u32]"
    "distinct (map fst [([97 :: byte], 0 :: u32), ([98], 0)])" by simp_all
  from word_index_unique_def_index_shared[OF t1, of new_dictionary_file True True True] d rw ok
  obtain ed where "open_file new_dictionary_file (Regular shared_def_file) True True True
      = Inr (new_dictionary_file\<lparr>file_open_type := ot_read, do_dedup := True,
               file_data := shared_def_file, reserved_words := 2, words_sect_size := 4,
               words := sort_key fst [([97], 0), ([98], 0)], existing_defs := ed,
               created_file := False\<rparr>)"
    by auto
  moreover from word_index_unique_def_index_shared[OF t2, of new_dictionary_file True True True] d
  have "open_file new_dictionary_file (Regular shared_word_file) True True True
      = Inl repeated_indices" by blast
  ultimately show ?thesis using t1 t2 d ok by simp
qed

section \<open>The code at failing inputs\<close>

subsection \<open>Empty definitions\<close>

text \<open>
  C5 (the code at the failing input). On a new file opened with deduplication disabled,
  \<open>add_word\<close> of an empty definition returns \<open>true\<close> and leaves a record of size 0 at
  the end of the defs section, a record that the engine's own reader of record headers
  refuses. (Shown for \<open>add_word<false>\<close>; \<open>add_word<true>\<close> differs by the \<open>flush\<close> that
  follows.)
\<close>

theorem add_word_accepts_empty_def:
  "(case add_word arrs False False [97] [] (fresh_file False) of
      Some (Inr (inserted, s)) \<Rightarrow>
        inserted \<and> words s = [([97], 0)]
        \<and> defs_section s = uint32_LE 0 @ uint64_LE fnv_init
        \<and> get_def_size_and_hash s 0 0
              (defs_section_offset (reserved_words s) (words_sect_size s))
            = Inl (Runtime_error ''Read 0 definition size. File may be corrupted'')
    | _ \<Rightarrow> False)"
  by code_simp

subsection \<open>The size check of open\<close>

text \<open>
  C6 (the code at the failing input). The header of \<open>short_file\<close> claims a words section of
  256 bytes, which would end at byte 283; the file has 27 bytes, and \<open>open\<close> succeeds.
\<close>

theorem open_accepts_truncated_words_section:
  "length short_file = 27 \<and>
   (case open_file new_dictionary_file (Regular short_file) True True True of
      Inr s \<Rightarrow> reserved_words s = 1 \<and> words_sect_size s = 256 \<and> words s = []
        \<and> length (file_data s) < defs_section_offset (reserved_words s) (words_sect_size s)
    | Inl e \<Rightarrow> False)"
  by code_simp

subsection \<open>The hash field after a rewrite without deduplication\<close>

text \<open>
  C4 (the code at the failing input). On a new file opened with deduplication disabled,
  \<open>add_word\<close> of a 256-byte key with the one-byte definition \<open>x\<close> makes \<open>flush\<close> rewrite
  the file. The rewritten record starts with the eight bytes of the hash where its size
  belongs: read back, its size field is the lower half of the hash and its hash field is
  the upper half of the hash followed by the upper half of \<open>fnv_init\<close>.
\<close>

theorem rewrite_without_dedup_overwrites_size:
  "(case add_word arrs True False long_key [120] (fresh_file False) of
      Some (Inr (inserted, s)) \<Rightarrow>
        inserted \<and> words s = [(long_key, 0)]
        \<and> reserved_words s = 32 \<and> words_sect_size s = 512
        \<and> defs_section s
            = uint64_LE (fnv1a [120] fnv_init) @ drop 4 (uint64_LE fnv_init) @ [120]
        \<and> get_def_size_and_hash s 0 0 (defs_section_offset 32 512)
            = Inr (0x86021707, 0xcbf29ce4af63f54c)
        \<and> fnv1a [120] fnv_init = 0xaf63f54c86021707
    | _ \<Rightarrow> False)"
  by code_simp

end
